theory Spec2Isabelle
  imports
    Main
    "HOL-Library.AList"
    "HOL-Library.Char_ord"
    "HOL-Library.List_Lexorder"
    "HOL-Library.Product_Lexorder"
    "HOL-Library.Multiset"
begin

section \<open>Data model\<close>

text \<open>
  The entities of \<^verbatim>\<open>chatService\<close> (interfaces \<^verbatim>\<open>ChatRoom\<close>, \<^verbatim>\<open>ChatMessage\<close>) as records.
  Fields whose source name is a HOL constant or an Isabelle keyword carry a prefix
  (\<^verbatim>\<open>id\<close>, \<^verbatim>\<open>name\<close>, \<^verbatim>\<open>type\<close>, \<^verbatim>\<open>text\<close>). User ids, chat ids and message texts are
  JavaScript strings; a \<open>char\<close> stands for one code unit. Instants (\<^verbatim>\<open>Date.now()\<close>) are
  natural numbers of milliseconds.
\<close>

datatype chat_type = Direct | Group

datatype message_type = TextMsg | MemeMsg | ImageMsg

record LastMessage =
  lmText :: string
  lmSenderId :: string
  lmTimestamp :: nat
  lmType :: message_type

record ChatRoom =
  roomId :: string
  roomName :: "string option"
  roomType :: chat_type
  participants :: "string list"
  createdBy :: string
  createdAt :: nat
  lastMessage :: "LastMessage option"
  lastActivity :: nat
  isActive :: bool

record MemeData =
  memeId :: string
  title :: string
  imageUrl :: string
  authorName :: string

record ChatMessage =
  msgId :: string
  chatId :: string
  senderId :: string
  senderName :: string
  msgText :: string
  msgType :: message_type
  timestamp :: nat
  memeData :: "MemeData option"
  readBy :: "string list"
  edited :: "bool option"
  editedAt :: "nat option"

text \<open>
  \<^verbatim>\<open>NotificationData\<close> is imported from \<^verbatim>\<open>../types/follow\<close>, which is not part of the
  sources at hand. Modelled from the spec: the Notification entity of the data model
  (id, userId, fromUserId, type, optional targetId, message, read, createdAt, metadata),
  with the metadata payload as the list of the fields the constructors write.
\<close>

record Notification =
  notifId :: string
  userId :: string
  fromUserId :: string
  notifType :: string
  targetId :: "string option"
  message :: string
  isRead :: bool
  notifCreatedAt :: nat
  metadata :: "(string \<times> string) list"

text \<open>The argument of \<^verbatim>\<open>createNotification\<close>: a notification without its id, where
  \<^verbatim>\<open>createdAt\<close> and \<^verbatim>\<open>read\<close> may be unset.\<close>

record NotificationDraft =
  d_userId :: string
  d_fromUserId :: string
  d_type :: string
  d_targetId :: "string option"
  d_message :: string
  d_read :: "bool option"
  d_createdAt :: "nat option"
  d_metadata :: "(string \<times> string) list"

section \<open>The document store\<close>

text \<open>
  The store (Firestore) is an external collaborator. A collection is an association list
  from document ids to documents, with one entry per id. Every call of the store may
  fail; which calls fail is part of the environment of an operation, together with the
  clock and the identifier the store generates for a new document reference.
\<close>

datatype error = ValidationError | StoreError | InvalidQuery

datatype collection = ChatRooms | ChatMessages | Notifications

datatype store_call =
    GetDoc collection string
  | SetDoc collection string
  | UpdateDoc collection string
  | DeleteDoc collection string
  | GetDocs collection string
  | BatchCommit

record env =
  now :: nat
  now2 :: nat
  newId :: string
  storeDown :: "store_call \<Rightarrow> bool"

record store =
  chatRooms :: "(string \<times> ChatRoom) list"
  chatMessages :: "(string \<times> ChatMessage) list"
  notifications :: "(string \<times> Notification) list"

definition emptyStore :: store where
  "emptyStore = \<lparr>chatRooms = [], chatMessages = [], notifications = []\<rparr>"

definition arrayUnion :: "string \<Rightarrow> string list \<Rightarrow> string list" where
  "arrayUnion u xs = (if u \<in> set xs then xs else xs @ [u])"

definition arrayRemove :: "string \<Rightarrow> string list \<Rightarrow> string list" where
  "arrayRemove u xs = filter (\<lambda>x. x \<noteq> u) xs"

text \<open>The writes that a batch collects. An update of a document that does not exist
  fails, and a failing write fails the whole batch: \<open>commit\<close> then returns the store it
  was given. A batch without writes resolves without any call of the store.\<close>

datatype write_op =
    SetMessage string ChatMessage
  | UpdateRoom string "ChatRoom \<Rightarrow> ChatRoom"
  | UpdateMessage string "ChatMessage \<Rightarrow> ChatMessage"
  | UpdateNotification string "Notification \<Rightarrow> Notification"
  | DeleteNotification string

fun apply_write :: "store \<Rightarrow> write_op \<Rightarrow> error + store" where
  "apply_write st (SetMessage k m) =
     Inr (st\<lparr>chatMessages := AList.update k m (chatMessages st)\<rparr>)"
| "apply_write st (UpdateRoom k f) =
     (case map_of (chatRooms st) k of
        None \<Rightarrow> Inl StoreError
      | Some r \<Rightarrow> Inr (st\<lparr>chatRooms := AList.update k (f r) (chatRooms st)\<rparr>))"
| "apply_write st (UpdateMessage k f) =
     (case map_of (chatMessages st) k of
        None \<Rightarrow> Inl StoreError
      | Some m \<Rightarrow> Inr (st\<lparr>chatMessages := AList.update k (f m) (chatMessages st)\<rparr>))"
| "apply_write st (UpdateNotification k f) =
     (case map_of (notifications st) k of
        None \<Rightarrow> Inl StoreError
      | Some n \<Rightarrow> Inr (st\<lparr>notifications := AList.update k (f n) (notifications st)\<rparr>))"
| "apply_write st (DeleteNotification k) =
     Inr (st\<lparr>notifications := AList.delete k (notifications st)\<rparr>)"

fun apply_writes :: "store \<Rightarrow> write_op list \<Rightarrow> error + store" where
  "apply_writes st [] = Inr st"
| "apply_writes st (w # ws) =
     (case apply_write st w of Inl e \<Rightarrow> Inl e | Inr st' \<Rightarrow> apply_writes st' ws)"

definition commit :: "env \<Rightarrow> store \<Rightarrow> write_op list \<Rightarrow> (error + unit) \<times> store" where
  "commit e st ws =
     (if ws = [] then (Inr (), st)
      else if storeDown e BatchCommit then (Inl StoreError, st)
      else case apply_writes st ws of
             Inl err \<Rightarrow> (Inl err, st)
           | Inr st' \<Rightarrow> (Inr (), st'))"

subsection \<open>Single-document calls and queries\<close>

text \<open>\<^verbatim>\<open>setDoc\<close> writes the document whether or not the id is taken, \<^verbatim>\<open>updateDoc\<close> changes
  fields of a document that exists and fails when there is none, \<^verbatim>\<open>deleteDoc\<close> removes the
  document if there is one. A call that fails leaves the collection as it was.\<close>

definition setDoc ::
  "env \<Rightarrow> collection \<Rightarrow> (string \<times> 'a) list \<Rightarrow> string \<Rightarrow> 'a \<Rightarrow> error + (string \<times> 'a) list" where
  "setDoc e c docs k v =
     (if storeDown e (SetDoc c k) then Inl StoreError else Inr (AList.update k v docs))"

definition getDoc ::
  "env \<Rightarrow> collection \<Rightarrow> (string \<times> 'a) list \<Rightarrow> string \<Rightarrow> error + 'a option" where
  "getDoc e c docs k =
     (if storeDown e (GetDoc c k) then Inl StoreError else Inr (map_of docs k))"

definition updateDoc ::
  "env \<Rightarrow> collection \<Rightarrow> (string \<times> 'a) list \<Rightarrow> string \<Rightarrow> ('a \<Rightarrow> 'a)
     \<Rightarrow> error + (string \<times> 'a) list" where
  "updateDoc e c docs k f =
     (if storeDown e (UpdateDoc c k) then Inl StoreError
      else case map_of docs k of
             None \<Rightarrow> Inl StoreError
           | Some v \<Rightarrow> Inr (AList.update k (f v) docs))"


text \<open>\<^verbatim>\<open>query(...)\<close> checks the operators of its \<^verbatim>\<open>where\<close> filters before any call of
  the store and throws on a combination it does not accept: a query may hold at most one
  filter with \<^verbatim>\<open>!=\<close> or \<^verbatim>\<open>not-in\<close>.\<close>

datatype filter_op = OpEq | OpNe | OpNotIn | OpArrayContains

definition query :: "filter_op list \<Rightarrow> error + unit" where
  "query ops =
     (if length (filter (\<lambda>op. op = OpNe \<or> op = OpNotIn) ops) > 1 then Inl InvalidQuery
      else Inr ())"

text \<open>A query returns the documents that pass its \<^verbatim>\<open>where\<close> filters. The string names the
  query among the store calls that may fail (the chat id or user id it filters on).\<close>

definition getDocs ::
  "env \<Rightarrow> collection \<Rightarrow> string \<Rightarrow> (string \<times> 'a) list \<Rightarrow> (string \<times> 'a \<Rightarrow> bool)
     \<Rightarrow> error + (string \<times> 'a) list" where
  "getDocs e c q docs P =
     (if storeDown e (GetDocs c q) then Inl StoreError else Inr (filter P docs))"

section \<open>Chat coordinator\<close>

text \<open>Every operation takes the environment and the store and returns its result, an
  error standing for a rejected promise, with the store it leaves behind.\<close>

subsection \<open>Messages\<close>

definition summaryOf :: "ChatMessage \<Rightarrow> ChatRoom \<Rightarrow> ChatRoom" where
  "summaryOf m r =
     r\<lparr>lastMessage := Some \<lparr>lmText = msgText m, lmSenderId = senderId m,
                             lmTimestamp = timestamp m, lmType = msgType m\<rparr>,
       lastActivity := timestamp m\<rparr>"

definition sendMessage ::
  "env \<Rightarrow> store \<Rightarrow> string \<Rightarrow> string \<Rightarrow> string \<Rightarrow> string \<Rightarrow> (error + ChatMessage) \<times> store" where
  "sendMessage e st cid sid sname txt =
     (let message = \<lparr>msgId = newId e, chatId = cid, senderId = sid, senderName = sname,
                     msgText = txt, msgType = TextMsg, timestamp = now e, memeData = None,
                     readBy = [sid], edited = None, editedAt = None\<rparr>;
          batch = [SetMessage (newId e) message,
                   UpdateRoom cid (\<lambda>r. r\<lparr>lastMessage :=
                       Some \<lparr>lmText = txt, lmSenderId = sid,
                             lmTimestamp = timestamp message, lmType = TextMsg\<rparr>,
                     lastActivity := timestamp message\<rparr>)]
      in case commit e st batch of
           (Inl err, st') \<Rightarrow> (Inl err, st')
         | (Inr _, st') \<Rightarrow> (Inr message, st'))"

definition sendMemeMessage ::
  "env \<Rightarrow> store \<Rightarrow> string \<Rightarrow> string \<Rightarrow> string \<Rightarrow> MemeData \<Rightarrow> (error + ChatMessage) \<times> store" where
  "sendMemeMessage e st cid sid sname md =
     (let message = \<lparr>msgId = newId e, chatId = cid, senderId = sid, senderName = sname,
                     msgText = ''Shared a meme: '' @ title md, msgType = MemeMsg,
                     timestamp = now e, memeData = Some md,
                     readBy = [sid], edited = None, editedAt = None\<rparr>;
          batch = [SetMessage (newId e) message,
                   UpdateRoom cid (\<lambda>r. r\<lparr>lastMessage :=
                       Some \<lparr>lmText = ''Shared a meme: '' @ title md, lmSenderId = sid,
                             lmTimestamp = timestamp message, lmType = MemeMsg\<rparr>,
                     lastActivity := timestamp message\<rparr>)]
      in case commit e st batch of
           (Inl err, st') \<Rightarrow> (Inl err, st')
         | (Inr _, st') \<Rightarrow> (Inr message, st'))"

text \<open>The two outcomes of a send with respect to the store: the message is stored and the
  room carries its summary, or the store is the one before.\<close>

definition bothWritten :: "store \<Rightarrow> store \<Rightarrow> ChatMessage \<Rightarrow> bool" where
  "bothWritten st st' m =
     (case map_of (chatRooms st) (chatId m) of
        None \<Rightarrow> False
      | Some r \<Rightarrow>
          st' = st\<lparr>chatMessages := AList.update (msgId m) m (chatMessages st),
                   chatRooms := AList.update (chatId m) (summaryOf m r) (chatRooms st)\<rparr>)"

subsection \<open>Rooms\<close>

text \<open>\<^verbatim>\<open>Array.prototype.join\<close>; \<^verbatim>\<open>sort()\<close> without a comparator orders strings by code
  units, here the order of \<open>string\<close>.\<close>

fun join :: "string \<Rightarrow> string list \<Rightarrow> string" where
  "join sep [] = []"
| "join sep [x] = x"
| "join sep (x # y # ys) = x @ sep @ join sep (y # ys)"

definition directChatId :: "string \<Rightarrow> string \<Rightarrow> string" where
  "directChatId userId1 userId2 = ''direct_'' @ join ''_'' (sort [userId1, userId2])"

definition getDirectChat :: "env \<Rightarrow> store \<Rightarrow> string \<Rightarrow> string \<Rightarrow> ChatRoom option" where
  "getDirectChat e st userId1 userId2 =
     (case getDoc e ChatRooms (chatRooms st) (directChatId userId1 userId2) of
        Inl err \<Rightarrow> None
      | Inr chatDoc \<Rightarrow> chatDoc)"

definition createDirectChat ::
  "env \<Rightarrow> store \<Rightarrow> string \<Rightarrow> string \<Rightarrow> (error + ChatRoom) \<times> store" where
  "createDirectChat e st userId1 userId2 =
     (case getDirectChat e st userId1 userId2 of
        Some existingChat \<Rightarrow> (Inr existingChat, st)
      | None \<Rightarrow>
          (let cid = directChatId userId1 userId2;
               chatRoom = \<lparr>roomId = cid, roomName = None, roomType = Direct,
                           participants = [userId1, userId2], createdBy = userId1,
                           createdAt = now e, lastMessage = None, lastActivity = now2 e,
                           isActive = True\<rparr>
           in case setDoc e ChatRooms (chatRooms st) cid chatRoom of
                Inl err \<Rightarrow> (Inl err, st)
              | Inr rooms \<Rightarrow> (Inr chatRoom, st\<lparr>chatRooms := rooms\<rparr>)))"

definition createGroupChat ::
  "env \<Rightarrow> store \<Rightarrow> string \<Rightarrow> string list \<Rightarrow> string \<Rightarrow> (error + ChatRoom) \<times> store" where
  "createGroupChat e st creatorId ps groupName =
     (let chatRoom = \<lparr>roomId = newId e, roomName = Some groupName, roomType = Group,
                      participants = creatorId # filter (\<lambda>p. p \<noteq> creatorId) ps,
                      createdBy = creatorId, createdAt = now e, lastMessage = None,
                      lastActivity = now2 e, isActive = True\<rparr>
      in case setDoc e ChatRooms (chatRooms st) (newId e) chatRoom of
           Inl err \<Rightarrow> (Inl err, st)
         | Inr rooms \<Rightarrow> (Inr chatRoom, st\<lparr>chatRooms := rooms\<rparr>))"

text \<open>\<^verbatim>\<open>orderBy('lastActivity', 'desc')\<close>: descending activity, ties by document id.\<close>

definition getUserChats :: "env \<Rightarrow> store \<Rightarrow> string \<Rightarrow> ChatRoom list" where
  "getUserChats e st u =
     (case getDocs e ChatRooms u (chatRooms st)
             (\<lambda>(k, r). u \<in> set (participants r) \<and> isActive r = True) of
        Inl err \<Rightarrow> []
      | Inr docs \<Rightarrow> map snd (rev (sort_key (\<lambda>(k, r). (lastActivity r, k)) docs)))"

definition addParticipant :: "env \<Rightarrow> store \<Rightarrow> string \<Rightarrow> string \<Rightarrow> (error + unit) \<times> store" where
  "addParticipant e st cid u =
     (case updateDoc e ChatRooms (chatRooms st) cid
             (\<lambda>r. r\<lparr>participants := arrayUnion u (participants r)\<rparr>) of
        Inl err \<Rightarrow> (Inl err, st)
      | Inr rooms \<Rightarrow> (Inr (), st\<lparr>chatRooms := rooms\<rparr>))"

definition removeParticipant :: "env \<Rightarrow> store \<Rightarrow> string \<Rightarrow> string \<Rightarrow> (error + unit) \<times> store" where
  "removeParticipant e st cid u =
     (case updateDoc e ChatRooms (chatRooms st) cid
             (\<lambda>r. r\<lparr>participants := arrayRemove u (participants r)\<rparr>) of
        Inl err \<Rightarrow> (Inl err, st)
      | Inr rooms \<Rightarrow> (Inr (), st\<lparr>chatRooms := rooms\<rparr>))"

definition deleteChatRoom :: "env \<Rightarrow> store \<Rightarrow> string \<Rightarrow> (error + unit) \<times> store" where
  "deleteChatRoom e st cid = commit e st [UpdateRoom cid (\<lambda>r. r\<lparr>isActive := False\<rparr>)]"

subsection \<open>Read state\<close>

text \<open>The filter \<^verbatim>\<open>where('readBy', 'not-in', [[userId]])\<close> compares the value of the field
  with each listed value: it keeps the messages whose \<^verbatim>\<open>readBy\<close> array is none of the
  listed arrays, and the only listed array is \<^verbatim>\<open>[userId]\<close>.\<close>

definition readByNotIn :: "string list list \<Rightarrow> ChatMessage \<Rightarrow> bool" where
  "readByNotIn vs m = (readBy m \<notin> set vs)"

definition markMessageAsRead ::
  "env \<Rightarrow> store \<Rightarrow> string \<Rightarrow> string \<Rightarrow> (error + unit) \<times> store" where
  "markMessageAsRead e st mid u =
     (case updateDoc e ChatMessages (chatMessages st) mid
             (\<lambda>m. m\<lparr>readBy := arrayUnion u (readBy m)\<rparr>) of
        Inl err \<Rightarrow> (Inr (), st)
      | Inr msgs \<Rightarrow> (Inr (), st\<lparr>chatMessages := msgs\<rparr>))"

definition markChatAsRead ::
  "env \<Rightarrow> store \<Rightarrow> string \<Rightarrow> string \<Rightarrow> (error + unit) \<times> store" where
  "markChatAsRead e st cid u =
     (case getDocs e ChatMessages cid (chatMessages st)
             (\<lambda>(k, m). chatId m = cid \<and> readByNotIn [[u]] m) of
        Inl err \<Rightarrow> (Inr (), st)
      | Inr docs \<Rightarrow>
          (case commit e st
                  (map (\<lambda>(k, m). UpdateMessage k (\<lambda>m. m\<lparr>readBy := arrayUnion u (readBy m)\<rparr>))
                     docs) of
             (Inl err, st') \<Rightarrow> (Inr (), st')
           | (Inr _, st') \<Rightarrow> (Inr (), st')))"

text \<open>The loop of \<^verbatim>\<open>getUnreadMessageCount\<close> over the user's chats, with the running total.
  Each round builds a query with the filters \<^verbatim>\<open>==\<close> on \<^verbatim>\<open>chatId\<close>, \<^verbatim>\<open>!=\<close> on \<^verbatim>\<open>senderId\<close> and
  \<^verbatim>\<open>not-in\<close> on \<^verbatim>\<open>readBy\<close>, inside the \<^verbatim>\<open>try\<close> of the function.\<close>

fun countUnread :: "env \<Rightarrow> store \<Rightarrow> string \<Rightarrow> ChatRoom list \<Rightarrow> nat \<Rightarrow> error + nat" where
  "countUnread e st u [] totalUnread = Inr totalUnread"
| "countUnread e st u (chat # chats) totalUnread =
     (case query [OpEq, OpNe, OpNotIn] of
        Inl err \<Rightarrow> Inl err
      | Inr _ \<Rightarrow>
          (case getDocs e ChatMessages (roomId chat) (chatMessages st)
                  (\<lambda>(k, m). chatId m = roomId chat \<and> senderId m \<noteq> u \<and> readByNotIn [[u]] m) of
             Inl err \<Rightarrow> Inl err
           | Inr docs \<Rightarrow> countUnread e st u chats (totalUnread + length docs)))"

definition getUnreadMessageCount :: "env \<Rightarrow> store \<Rightarrow> string \<Rightarrow> nat" where
  "getUnreadMessageCount e st u =
     (case countUnread e st u (getUserChats e st u) 0 of
        Inl err \<Rightarrow> 0
      | Inr totalUnread \<Rightarrow> totalUnread)"

text \<open>The count as the specification words it: over the active chats that contain the
  user, the messages of the chat written by someone else whose \<^verbatim>\<open>readBy\<close> does not contain
  the user.\<close>

definition unreadBySpec :: "store \<Rightarrow> string \<Rightarrow> nat" where
  "unreadBySpec st u =
     sum_list (map (\<lambda>(k, r). length (filter (\<lambda>(j, m). chatId m = roomId r \<and> senderId m \<noteq> u
                                                  \<and> u \<notin> set (readBy m)) (chatMessages st)))
                 (filter (\<lambda>(k, r). u \<in> set (participants r) \<and> isActive r) (chatRooms st)))"

subsection \<open>Live message query\<close>

text \<open>The query of \<^verbatim>\<open>subscribeToMessages\<close>: the messages of the chat by ascending
  timestamp (ties by document id), cut by \<^verbatim>\<open>limit(100)\<close>. The listener passes its result
  to the callback at registration and after every change; a subscription is modelled by
  the list of the arguments the callback receives along a history of store states.\<close>

definition messagesSnapshot :: "store \<Rightarrow> string \<Rightarrow> ChatMessage list" where
  "messagesSnapshot st cid =
     map snd (take 100 (sort_key (\<lambda>(k, m). (timestamp m, k))
                          (filter (\<lambda>(k, m). chatId m = cid) (chatMessages st))))"

definition subscribeToMessages :: "string \<Rightarrow> store list \<Rightarrow> ChatMessage list list" where
  "subscribeToMessages cid history = map (\<lambda>st. messagesSnapshot st cid) history"

section \<open>Notification coordinator\<close>

text \<open>\<^verbatim>\<open>!x\<close> on a string holds of the empty string; \<^verbatim>\<open>x || d\<close> takes \<^verbatim>\<open>d\<close> when \<^verbatim>\<open>x\<close> is
  unset, zero or false.\<close>

definition createNotification ::
  "env \<Rightarrow> store \<Rightarrow> NotificationDraft \<Rightarrow> (error + string) \<times> store" where
  "createNotification e st d =
     (if d_userId d = [] \<or> d_type d = [] \<or> d_message d = [] then (Inl ValidationError, st)
      else
        (let notificationData =
               \<lparr>notifId = newId e, userId = d_userId d, fromUserId = d_fromUserId d,
                notifType = d_type d, targetId = d_targetId d, message = d_message d,
                isRead = (case d_read d of None \<Rightarrow> False | Some b \<Rightarrow> b),
                notifCreatedAt =
                  (case d_createdAt d of
                     None \<Rightarrow> now e
                   | Some t \<Rightarrow> if t = 0 then now e else t),
                metadata = d_metadata d\<rparr>
         in case setDoc e Notifications (notifications st) (newId e) notificationData of
              Inl err \<Rightarrow> (Inl err, st)
            | Inr ns \<Rightarrow> (Inr (newId e), st\<lparr>notifications := ns\<rparr>)))"






subsection \<open>Event-driven constructors\<close>

text \<open>\<^verbatim>\<open>s.substring(0, 100)\<close> is the first 100 code units of \<^verbatim>\<open>s\<close>, all of it when it is
  shorter.\<close>

definition substring0 :: "nat \<Rightarrow> string \<Rightarrow> string" where
  "substring0 n s = take n s"

definition createLikeNotification ::
  "env \<Rightarrow> store \<Rightarrow> string \<Rightarrow> string \<Rightarrow> string \<Rightarrow> string \<Rightarrow> (error + unit) \<times> store" where
  "createLikeNotification e st likedByUserId memeAuthorId mid memeTitle =
     (if likedByUserId = memeAuthorId then (Inr (), st)
      else if likedByUserId = [] \<or> memeAuthorId = [] \<or> mid = [] \<or> memeTitle = []
      then (Inr (), st)
      else
        (case createNotification e st
                \<lparr>d_userId = memeAuthorId, d_fromUserId = likedByUserId, d_type = ''like'',
                 d_targetId = Some mid, d_message = ''liked your meme'',
                 d_read = Some False, d_createdAt = Some (now e),
                 d_metadata = [(''memeTitle'', substring0 100 memeTitle)]\<rparr> of
           (Inl err, st') \<Rightarrow> (Inr (), st')
         | (Inr _, st') \<Rightarrow> (Inr (), st')))"

definition createCommentNotification ::
  "env \<Rightarrow> store \<Rightarrow> string \<Rightarrow> string \<Rightarrow> string \<Rightarrow> string \<Rightarrow> string \<Rightarrow> (error + unit) \<times> store" where
  "createCommentNotification e st commentByUserId memeAuthorId mid memeTitle commentText =
     (if commentByUserId = memeAuthorId then (Inr (), st)
      else
        (case createNotification e st
                \<lparr>d_userId = memeAuthorId, d_fromUserId = commentByUserId,
                 d_type = ''comment'', d_targetId = Some mid,
                 d_message = ''commented on your meme'',
                 d_read = Some False, d_createdAt = Some (now e),
                 d_metadata = [(''memeTitle'', memeTitle),
                               (''commentText'', substring0 100 commentText)]\<rparr> of
           (Inl err, st') \<Rightarrow> (Inr (), st')
         | (Inr _, st') \<Rightarrow> (Inr (), st')))"

definition createReplyNotification ::
  "env \<Rightarrow> store \<Rightarrow> string \<Rightarrow> string \<Rightarrow> string \<Rightarrow> string \<Rightarrow> string \<Rightarrow> (error + unit) \<times> store" where
  "createReplyNotification e st replyByUserId originalCommentUserId mid memeTitle replyText =
     (if replyByUserId = originalCommentUserId then (Inr (), st)
      else
        (case createNotification e st
                \<lparr>d_userId = originalCommentUserId, d_fromUserId = replyByUserId,
                 d_type = ''reply'', d_targetId = Some mid,
                 d_message = ''replied to your comment'',
                 d_read = Some False, d_createdAt = Some (now e),
                 d_metadata = [(''memeTitle'', memeTitle),
                               (''commentText'', substring0 100 replyText)]\<rparr> of
           (Inl err, st') \<Rightarrow> (Inr (), st')
         | (Inr _, st') \<Rightarrow> (Inr (), st')))"

definition createAchievementNotification ::
  "env \<Rightarrow> store \<Rightarrow> string \<Rightarrow> string \<Rightarrow> string \<Rightarrow> (error + unit) \<times> store" where
  "createAchievementNotification e st uid achievementName achievementIcon =
     (case createNotification e st
             \<lparr>d_userId = uid, d_fromUserId = uid, d_type = ''achievement'',
              d_targetId = None,
              d_message = ''unlocked the '' @ [CHR 0x22] @ achievementName @ [CHR 0x22]
                            @ '' achievement!'',
              d_read = Some False, d_createdAt = Some (now e),
              d_metadata = [(''achievementName'', achievementName),
                            (''achievementIcon'', achievementIcon)]\<rparr> of
        (Inl err, st') \<Rightarrow> (Inr (), st')
      | (Inr _, st') \<Rightarrow> (Inr (), st'))"

section \<open>The caller of group creation\<close>

text \<open>\<^verbatim>\<open>handleStartChat\<close> of the chat modal, reduced to the call it decides on. \<^verbatim>\<open>trim\<close>
  removes white space at both ends; of the white space of the language, the code units
  that a \<open>char\<close> can hold are listed.\<close>

definition isWhiteSpace :: "char \<Rightarrow> bool" where
  "isWhiteSpace c = (c \<in> set [CHR 0x09, CHR 0x0A, CHR 0x0B, CHR 0x0C, CHR 0x0D, CHR 0x20, CHR 0xA0])"

definition trim :: "string \<Rightarrow> string" where
  "trim s = rev (dropWhile isWhiteSpace (rev (dropWhile isWhiteSpace s)))"

datatype start_action =
    NoAction
  | NameRequired
  | CallCreateGroupChat string "string list" string
  | CallCreateDirectChat string string

definition handleStartChat ::
  "string option \<Rightarrow> string list \<Rightarrow> bool \<Rightarrow> string \<Rightarrow> start_action" where
  "handleStartChat user selectedUsers isGroup groupName =
     (case user of
        None \<Rightarrow> NoAction
      | Some uid \<Rightarrow>
          (case selectedUsers of
             [] \<Rightarrow> NoAction
           | first # others \<Rightarrow>
               if isGroup \<and> length selectedUsers > 1
               then (if trim groupName = [] then NameRequired
                     else CallCreateGroupChat uid selectedUsers groupName)
               else CallCreateDirectChat uid first))"

section \<open>Example environments and stores\<close>

definition env0 :: env where
  "env0 = \<lparr>now = 1000, now2 = 1000, newId = ''m1'', storeDown = (\<lambda>call. False)\<rparr>"

definition envDown :: env where
  "envDown = \<lparr>now = 2000, now2 = 2000, newId = ''m2'', storeDown = (\<lambda>call. True)\<rparr>"

definition room12 :: ChatRoom where
  "room12 = \<lparr>roomId = ''direct_u1_u2'', roomName = None, roomType = Direct,
              participants = [''u1'', ''u2''], createdBy = ''u1'', createdAt = 1000,
              lastMessage = None, lastActivity = 1000, isActive = True\<rparr>"

definition store1 :: store where
  "store1 = \<lparr>chatRooms = [(''direct_u1_u2'', room12)], chatMessages = [], notifications = []\<rparr>"


text \<open>The first user writes to the second.\<close>

definition store2 :: store where
  "store2 = snd (sendMessage env0 store1 ''direct_u1_u2'' ''u1'' ''Una'' ''hi'')"


text \<open>The documents of a chat in the message collection.\<close>

definition chatDocs :: "store \<Rightarrow> string \<Rightarrow> (string \<times> ChatMessage) list" where
  "chatDocs st cid = filter (\<lambda>(k, m). chatId m = cid) (chatMessages st)"

text \<open>A chat with \<open>n\<close> messages, the \<open>i\<close>-th sent at instant \<open>i\<close>.\<close>

definition numbered :: "nat \<Rightarrow> string \<times> ChatMessage" where
  "numbered i =
     (replicate (Suc i) (CHR ''m''),
      \<lparr>msgId = replicate (Suc i) (CHR ''m''), chatId = ''c1'', senderId = ''u1'',
       senderName = ''Una'', msgText = ''hi'', msgType = TextMsg, timestamp = i,
       memeData = None, readBy = [''u1''], edited = None, editedAt = None\<rparr>)"

definition numberedStore :: "nat \<Rightarrow> store" where
  "numberedStore n = \<lparr>chatRooms = [], chatMessages = map numbered [0..<n], notifications = []\<rparr>"

definition bigStore :: store where
  "bigStore = numberedStore 101"

section \<open>Sequences of read-marking calls\<close>

text \<open>A call of \<^verbatim>\<open>markMessageAsRead\<close> or \<^verbatim>\<open>markChatAsRead\<close> with its arguments; a sequence
  of calls runs left to right, each in its own environment. \<open>grown m m'\<close> says that
  \<open>m'\<close> is \<open>m\<close> with possibly more readers, \<open>keeps st st'\<close> that every message of \<open>st\<close> is
  still stored in \<open>st'\<close>, grown.\<close>

datatype mark_call = MarkMessage string string | MarkChat string string

fun runMark :: "store \<Rightarrow> env \<times> mark_call \<Rightarrow> store" where
  "runMark st (e, MarkMessage mid u) = snd (markMessageAsRead e st mid u)"
| "runMark st (e, MarkChat cid u) = snd (markChatAsRead e st cid u)"

definition runMarks :: "store \<Rightarrow> (env \<times> mark_call) list \<Rightarrow> store" where
  "runMarks st calls = foldl runMark st calls"

definition grown :: "ChatMessage \<Rightarrow> ChatMessage \<Rightarrow> bool" where
  "grown m m' = (set (readBy m) \<subseteq> set (readBy m') \<and> m'\<lparr>readBy := readBy m\<rparr> = m)"

definition keeps :: "store \<Rightarrow> store \<Rightarrow> bool" where
  "keeps st st' =
     (\<forall>j m. map_of (chatMessages st) j = Some m \<longrightarrow>
        (\<exists>m'. map_of (chatMessages st') j = Some m' \<and> grown m m'))"

definition addReader :: "string \<Rightarrow> ChatMessage \<Rightarrow> ChatMessage" where
  "addReader u m = m\<lparr>readBy := arrayUnion u (readBy m)\<rparr>"

section \<open>Further example stores\<close>

definition message1 :: ChatMessage where
  "message1 = \<lparr>msgId = ''m1'', chatId = ''direct_u1_u2'', senderId = ''u1'', senderName = ''Una'',
                msgText = ''hi'', msgType = TextMsg, timestamp = 1000, memeData = None,
                readBy = [''u1''], edited = None, editedAt = None\<rparr>"



section \<open>Store invariant\<close>

text \<open>Every collection holds one entry per document id.\<close>

definition wellFormed :: "store \<Rightarrow> bool" where
  "wellFormed st =
     (distinct (map fst (chatRooms st)) \<and> distinct (map fst (chatMessages st))
      \<and> distinct (map fst (notifications st)))"

section \<open>Console log\<close>




section \<open>Direct rooms of a pair\<close>


definition pairKeyed :: "store \<Rightarrow> string \<Rightarrow> string \<Rightarrow> bool" where
  "pairKeyed st a b =
     (\<forall>(k, r) \<in> set (chatRooms st).
        (roomType r = Direct \<and> set (participants r) = {a, b}) = (k = directChatId a b))"

section \<open>Examples for notifications and memes\<close>



definition meme1 :: MemeData where
  "meme1 = \<lparr>memeId = ''meme7'', title = ''Cat'', imageUrl = ''cat.png'', authorName = ''Una''\<rparr>"

section \<open>Properties\<close>

lemma commit_send_cases:
  "commit e st [SetMessage k m, UpdateRoom c f] =
     (if storeDown e BatchCommit then (Inl StoreError, st)
      else case map_of (chatRooms st) c of
             None \<Rightarrow> (Inl StoreError, st)
           | Some r \<Rightarrow> (Inr (), st\<lparr>chatMessages := AList.update k m (chatMessages st),
                                    chatRooms := AList.update c (f r) (chatRooms st)\<rparr>))"
  by (simp add: commit_def split: option.splits)

subsection \<open>Sending a message\<close>

text \<open>
  C1. \<^verbatim>\<open>sendMessage\<close> and \<^verbatim>\<open>sendMemeMessage\<close> build a message whose \<^verbatim>\<open>readBy\<close> is the
  sender alone and put both writes, the message and the room's \<^verbatim>\<open>lastMessage\<close> and
  \<^verbatim>\<open>lastActivity\<close> taken from that message, in one batch. Whatever the store and the
  environment, the call either resolves with the message and leaves the store with both
  writes applied, or it rejects and leaves the store as it was. It resolves exactly when
  the commit goes through and the room exists.
\<close>

theorem sendMessage_atomic:
  "(case sendMessage e st cid sid sname body of
      (Inr m, st') \<Rightarrow> readBy m = [sid] \<and> chatId m = cid \<and> senderId m = sid \<and> msgText m = body
                        \<and> msgType m = TextMsg \<and> msgId m = newId e \<and> timestamp m = now e
                        \<and> senderName m = sname \<and> bothWritten st st' m
    | (Inl err, st') \<Rightarrow> st' = st)
   \<and> (case sendMemeMessage e st cid sid sname md of
      (Inr m, st') \<Rightarrow> readBy m = [sid] \<and> chatId m = cid \<and> senderId m = sid
                        \<and> msgText m = ''Shared a meme: '' @ title md \<and> msgType m = MemeMsg
                        \<and> memeData m = Some md \<and> msgId m = newId e \<and> timestamp m = now e
                        \<and> senderName m = sname \<and> bothWritten st st' m
    | (Inl err, st') \<Rightarrow> st' = st)
   \<and> (\<not> isl (fst (sendMessage e st cid sid sname body)))
        = (\<not> storeDown e BatchCommit \<and> map_of (chatRooms st) cid \<noteq> None)
   \<and> (\<not> isl (fst (sendMemeMessage e st cid sid sname md)))
        = (\<not> storeDown e BatchCommit \<and> map_of (chatRooms st) cid \<noteq> None)"
  by (auto simp add: sendMessage_def sendMemeMessage_def Let_def commit_send_cases bothWritten_def
      summaryOf_def split: option.splits)

theorem sendMessage_atomic_witness:
  "(case sendMessage env0 store1 ''direct_u1_u2'' ''u1'' ''Una'' ''hi'' of
      (Inr m, st') \<Rightarrow> readBy m = [''u1''] \<and> bothWritten store1 st' m
    | (Inl err, st') \<Rightarrow> False)
   \<and> (case sendMemeMessage env0 store1 ''direct_u1_u2'' ''u1'' ''Una'' meme1 of
      (Inr m, st') \<Rightarrow> readBy m = [''u1''] \<and> msgText m = ''Shared a meme: Cat''
                        \<and> map_of (chatMessages st') ''m1'' = Some m
                        \<and> map (\<lambda>(k, r). (k, map_option lmText (lastMessage r), lastActivity r))
                             (chatRooms st') = [(''direct_u1_u2'', Some ''Shared a meme: Cat'', 1000)]
    | (Inl err, st') \<Rightarrow> False)
   \<and> sendMessage envDown store1 ''direct_u1_u2'' ''u1'' ''Una'' ''hi'' = (Inl StoreError, store1)
   \<and> sendMemeMessage envDown store1 ''direct_u1_u2'' ''u1'' ''Una'' meme1 = (Inl StoreError, store1)
   \<and> sendMessage env0 emptyStore ''direct_u1_u2'' ''u1'' ''Una'' ''hi'' = (Inl StoreError, emptyStore)"
  using sendMessage_atomic [where e = env0 and st = store1 and cid = "''direct_u1_u2''"
      and sid = "''u1''" and sname = "''Una''" and body = "''hi''" and md = meme1]
  by (simp add: sendMessage_def sendMemeMessage_def Let_def commit_send_cases bothWritten_def
      summaryOf_def env0_def envDown_def store1_def emptyStore_def room12_def meme1_def)

subsection \<open>Event-driven notification constructors\<close>

text \<open>
  C6. When the actor is the recipient, the like, comment and reply constructors return
  normally and leave the store untouched. The achievement constructor either leaves the
  store untouched or stores one notification, whose \<^verbatim>\<open>fromUserId\<close> is its \<^verbatim>\<open>userId\<close>, the
  user of the achievement.
\<close>

theorem constructors_self_suppressed:
  "createLikeNotification e st u u mid t = (Inr (), st)
   \<and> createCommentNotification e st u u mid t c = (Inr (), st)
   \<and> createReplyNotification e st u u mid t c = (Inr (), st)
   \<and> (case createAchievementNotification e st u an ai of
        (res, st') \<Rightarrow>
          st' = st \<or>
          (case map_of (notifications st') (newId e) of
             None \<Rightarrow> False
           | Some n \<Rightarrow> fromUserId n = userId n \<and> userId n = u \<and> notifType n = ''achievement''
                       \<and> st' = st\<lparr>notifications := AList.update (newId e) n (notifications st)\<rparr>))"
  by (simp add: createLikeNotification_def createCommentNotification_def
      createReplyNotification_def createAchievementNotification_def createNotification_def
      setDoc_def Let_def AList.update_conv')

theorem constructors_self_suppressed_witness:
  "createLikeNotification env0 store1 ''u1'' ''u1'' ''meme7'' ''A title'' = (Inr (), store1)
   \<and> (case map_of (notifications (snd (createAchievementNotification env0 store1 ''u1''
                                         ''First post'' ''star''))) ''m1'' of
        None \<Rightarrow> False
      | Some n \<Rightarrow> fromUserId n = ''u1'' \<and> userId n = ''u1'')"
  using constructors_self_suppressed [where e = env0 and st = store1 and u = "''u1''"
      and mid = "''meme7''" and t = "''A title''" and an = "''First post''" and ai = "''star''"]
  by (simp add: createAchievementNotification_def createNotification_def setDoc_def env0_def
      store1_def)

text \<open>
  C7. Each of the four event-driven constructors returns normally on every input, in
  every store and under every pattern of store failures: a rejection of
  \<^verbatim>\<open>createNotification\<close>, by validation or by the store, is caught inside.
\<close>

theorem constructors_never_throw:
  "fst (createLikeNotification e st a b mid t) = Inr ()
   \<and> fst (createCommentNotification e st a b mid t c) = Inr ()
   \<and> fst (createReplyNotification e st a b mid t c) = Inr ()
   \<and> fst (createAchievementNotification e st u an ai) = Inr ()"
  by (simp add: createLikeNotification_def createCommentNotification_def
      createReplyNotification_def createAchievementNotification_def split: prod.splits sum.splits)

theorem constructors_never_throw_witness:
  "createNotification envDown store1
      \<lparr>d_userId = ''u2'', d_fromUserId = ''u1'', d_type = ''like'', d_targetId = Some ''meme7'',
       d_message = ''liked your meme'', d_read = Some False, d_createdAt = Some 2000,
       d_metadata = [(''memeTitle'', ''A title'')]\<rparr> = (Inl StoreError, store1)
   \<and> createLikeNotification envDown store1 ''u1'' ''u2'' ''meme7'' ''A title'' = (Inr (), store1)
   \<and> createNotification env0 store1
      \<lparr>d_userId = [], d_fromUserId = [], d_type = ''achievement'', d_targetId = None,
       d_message = ''x'', d_read = Some False, d_createdAt = Some 1000,
       d_metadata = []\<rparr> = (Inl ValidationError, store1)
   \<and> fst (createAchievementNotification env0 store1 [] ''First post'' ''star'') = Inr ()"
  using constructors_never_throw [where e = envDown and st = store1 and a = "''u1''"
      and b = "''u2''" and mid = "''meme7''" and t = "''A title''"]
    constructors_never_throw [where e = env0 and st = store1 and u = "[]"
      and an = "''First post''" and ai = "''star''"]
  by (simp add: createLikeNotification_def createNotification_def setDoc_def envDown_def
      env0_def substring0_def)

subsection \<open>Group creation\<close>

text \<open>
  C10. \<^verbatim>\<open>createGroupChat\<close> never rejects with a validation error, whatever the creator,
  the participant list and the name (empty and blank names and the empty list included).
  When the store accepts the write, it resolves with a room that is stored under the
  fresh id, is an active group with the given name, and whose participants are the
  creator followed by the listed participants other than the creator. The check of the
  name is in the caller: \<^verbatim>\<open>handleStartChat\<close> calls \<^verbatim>\<open>createGroupChat\<close> only with a name
  that is not blank.
\<close>

theorem createGroupChat_accepts_any_name:
  "fst (createGroupChat e st c ps s) \<noteq> Inl ValidationError
   \<and> (\<not> storeDown e (SetDoc ChatRooms (newId e)) \<longrightarrow>
        (case createGroupChat e st c ps s of
           (Inl err, st') \<Rightarrow> False
         | (Inr r, st') \<Rightarrow>
             participants r = c # filter (\<lambda>p. p \<noteq> c) ps \<and> roomType r = Group \<and> isActive r
             \<and> roomName r = Some s \<and> roomId r = newId e \<and> createdBy r = c
             \<and> map_of (chatRooms st') (newId e) = Some r
             \<and> st' = st\<lparr>chatRooms := AList.update (newId e) r (chatRooms st)\<rparr>))
   \<and> (handleStartChat user sel g nm = CallCreateGroupChat uid sel' nm' \<longrightarrow> trim nm' \<noteq> [])"
  by (auto simp add: createGroupChat_def setDoc_def Let_def AList.update_conv' handleStartChat_def
      split: option.splits list.splits if_splits)

theorem createGroupChat_accepts_any_name_witness:
  "\<not> storeDown env0 (SetDoc ChatRooms (newId env0))
   \<and> (case createGroupChat env0 emptyStore ''u1'' [] ''  '' of
        (Inl err, st') \<Rightarrow> False
      | (Inr r, st') \<Rightarrow> participants r = [''u1''] \<and> roomName r = Some ''  ''
                        \<and> map_of (chatRooms st') ''m1'' = Some r)
   \<and> handleStartChat (Some ''u1'') [''u2'', ''u3''] True ''team''
       = CallCreateGroupChat ''u1'' [''u2'', ''u3''] ''team''
   \<and> trim ''team'' \<noteq> []
   \<and> handleStartChat (Some ''u1'') [''u2'', ''u3''] True ''  '' = NameRequired"
  using createGroupChat_accepts_any_name [where e = env0 and st = emptyStore and c = "''u1''"
      and ps = "[]" and s = "''  ''" and user = "Some ''u1''" and sel = "[''u2'', ''u3'']"
      and g = True and nm = "''team''" and uid = "''u1''" and sel' = "[''u2'', ''u3'']"
      and nm' = "''team''"]
  by (simp add: createGroupChat_def setDoc_def env0_def emptyStore_def handleStartChat_def
      trim_def isWhiteSpace_def Let_def)

subsection \<open>The example conversation\<close>

lemma store2_eq:
  "store2 =
     \<lparr>chatRooms = [(''direct_u1_u2'',
         room12\<lparr>lastMessage := Some \<lparr>lmText = ''hi'', lmSenderId = ''u1'', lmTimestamp = 1000,
                                      lmType = TextMsg\<rparr>,
                lastActivity := 1000\<rparr>)],
      chatMessages = [(''m1'',
         \<lparr>msgId = ''m1'', chatId = ''direct_u1_u2'', senderId = ''u1'', senderName = ''Una'',
          msgText = ''hi'', msgType = TextMsg, timestamp = 1000, memeData = None,
          readBy = [''u1''], edited = None, editedAt = None\<rparr>)],
      notifications = []\<rparr>"
  by (simp add: store2_def sendMessage_def Let_def commit_send_cases env0_def store1_def)

subsection \<open>Unread count\<close>

lemma countUnread_rejected: "chats \<noteq> [] \<Longrightarrow> countUnread e st u chats n = Inl InvalidQuery"
  by (cases chats) (simp_all add: query_def)

lemma getUnreadMessageCount_zero: "getUnreadMessageCount e st u = 0"
  by (cases "getUserChats e st u") (simp_all add: getUnreadMessageCount_def query_def)

text \<open>
  C3. The count of \<^verbatim>\<open>getUnreadMessageCount\<close> is claimed to be the number of messages, in
  the active chats of the user, that someone else wrote and whose \<^verbatim>\<open>readBy\<close> does not
  contain the user. The query that the code builds for a chat combines a \<^verbatim>\<open>!=\<close> filter with
  a \<^verbatim>\<open>not-in\<close> filter; building it throws, the \<^verbatim>\<open>catch\<close> of the function returns 0, and
  so the function returns 0 for every user. In the store reached by creating the direct
  chat of \<open>u1\<close> and \<open>u2\<close> and sending one message as \<open>u1\<close>, that message is unread by
  \<open>u2\<close>: the claimed count is 1, the code returns 0.
\<close>

theorem unread_count_query_rejected:
  "createDirectChat env0 emptyStore ''u1'' ''u2'' = (Inr room12, store1)
   \<and> sendMessage env0 store1 ''direct_u1_u2'' ''u1'' ''Una'' ''hi'' = (Inr message1, store2)
   \<and> map (\<lambda>(k, m). (k, senderId m, readBy m)) (chatMessages store2) = [(''m1'', ''u1'', [''u1''])]
   \<and> getUserChats env0 store2 ''u2'' = map snd (chatRooms store2)
   \<and> unreadBySpec store2 ''u2'' = 1
   \<and> getUnreadMessageCount env0 store2 ''u2'' = 0"
  by (simp add: store2_eq message1_def getUnreadMessageCount_zero getUserChats_def getDocs_def
      unreadBySpec_def env0_def room12_def store1_def sendMessage_def commit_send_cases
      createDirectChat_def getDirectChat_def getDoc_def setDoc_def emptyStore_def
      directChatId_def Let_def)

subsection \<open>Truncation of metadata\<close>

lemma substring0_long: "n < length s \<Longrightarrow> substring0 n s = take n s \<and> length (substring0 n s) = n"
  by (simp add: substring0_def)

lemma substring0_short: "length s \<le> n \<Longrightarrow> substring0 n s = s"
  by (simp add: substring0_def)

text \<open>
  C5. Every free-text field of the metadata, the content title included, is claimed to be
  cut to 100 units. The comment and reply constructors cut the quoted text but store the
  title as it is given, where the like constructor cuts it: with a title of 101 units the
  comment and the reply notification carry all 101 units, the like notification 100.
\<close>

theorem comment_title_not_truncated:
  "(case map_of (notifications (snd (createCommentNotification env0 emptyStore ''u1'' ''u2''
                    ''meme7'' (replicate 101 (CHR ''t'')) ''nice''))) ''m1'' of
      None \<Rightarrow> False
    | Some n \<Rightarrow> map (\<lambda>(k, v). (k, length v)) (metadata n)
                  = [(''memeTitle'', 101), (''commentText'', 4)])
  \<and> (case map_of (notifications (snd (createReplyNotification env0 emptyStore ''u1'' ''u2''
                    ''meme7'' (replicate 101 (CHR ''t'')) ''nice''))) ''m1'' of
      None \<Rightarrow> False
    | Some n \<Rightarrow> map (\<lambda>(k, v). (k, length v)) (metadata n)
                  = [(''memeTitle'', 101), (''commentText'', 4)])
  \<and> (case map_of (notifications (snd (createLikeNotification env0 emptyStore ''u1'' ''u2''
                    ''meme7'' (replicate 101 (CHR ''t''))))) ''m1'' of
      None \<Rightarrow> False
    | Some n \<Rightarrow> map (\<lambda>(k, v). (k, length v)) (metadata n) = [(''memeTitle'', 100)])"
  by (simp add: createCommentNotification_def createReplyNotification_def
      createLikeNotification_def createNotification_def setDoc_def env0_def
      emptyStore_def substring0_def Let_def)

subsection \<open>Store failures on write paths\<close>





subsection \<open>Live message query\<close>

lemma chatDocs_numberedStore: "chatDocs (numberedStore n) ''c1'' = map numbered [0..<n]"
  by (simp add: chatDocs_def numberedStore_def numbered_def filter_map o_def)

lemma sorted_numbered: "sorted (map (\<lambda>(k, m). (timestamp m, k)) (map numbered [0..<n]))"
  apply (simp add: sorted_iff_nth_mono numbered_def less_eq_prod_def)
  apply (metis le_neq_implies_less order_refl)
  done

lemma snapshot_numberedStore:
  "messagesSnapshot (numberedStore n) ''c1'' = map (snd \<circ> numbered) [0..<min 100 n]"
proof -
  have "sort_key (\<lambda>(k, m). (timestamp m, k)) (map numbered [0..<n]) = map numbered [0..<n]"
    by (rule sort_key_id_if_sorted) (rule sorted_numbered)
  moreover have "take 100 [0..<n] = [0..<min 100 n]"
    by (cases "100 \<le> n") (simp_all add: min_def)
  ultimately show ?thesis
    using chatDocs_numberedStore [of n]
    by (simp add: messagesSnapshot_def chatDocs_def take_map)
qed

lemma numbered_in: "i < n \<Longrightarrow> numbered i \<in> set (map numbered [0..<n])"
  by simp

lemma numbered_out: "n \<le> i \<Longrightarrow> snd (numbered i) \<notin> set (map (snd \<circ> numbered) [0..<n])"
proof
  assume n: "n \<le> i" and "snd (numbered i) \<in> set (map (snd \<circ> numbered) [0..<n])"
  then obtain j where j: "j < n" and eq: "snd (numbered i) = snd (numbered j)"
    by auto
  from eq have "timestamp (snd (numbered i)) = timestamp (snd (numbered j))" by simp
  then have "i = j" by (simp add: numbered_def)
  with j n show False by simp
qed

lemma sorted_fst_of_lex: "sorted (map (\<lambda>x. (f x, g x)) zs) \<Longrightarrow> sorted (map f zs)"
  by (induction zs) (auto simp: less_eq_prod_def)

lemma snapshot_length:
  "length (messagesSnapshot st cid) = min 100 (length (chatDocs st cid))"
  by (simp add: messagesSnapshot_def chatDocs_def min_def)

lemma snapshot_sorted: "sorted (map timestamp (messagesSnapshot st cid))"
proof -
  let ?ys = "sort_key (\<lambda>(k, m). (timestamp m, k)) (chatDocs st cid)"
  have "sorted (map (\<lambda>(k, m). (timestamp m, k)) ?ys)"
    by (rule sorted_sort_key)
  then have "sorted (map (\<lambda>x. (timestamp (snd x), fst x)) ?ys)"
    by (simp only: split_def)
  then have "sorted (map (\<lambda>x. timestamp (snd x)) ?ys)"
    by (rule sorted_fst_of_lex [where f = "\<lambda>x. timestamp (snd x)" and g = fst])
  then have "sorted (take 100 (map (\<lambda>x. timestamp (snd x)) ?ys))"
    by (rule sorted_wrt_take)
  then show ?thesis
    by (simp only: messagesSnapshot_def chatDocs_def take_map map_map o_def)
qed

lemma snapshot_subset: "set (messagesSnapshot st cid) \<subseteq> snd ` set (chatDocs st cid)"
  by (auto simp: messagesSnapshot_def chatDocs_def dest!: in_set_takeD)

lemma snapshot_complete:
  "length (chatDocs st cid) \<le> 100 \<Longrightarrow> mset (messagesSnapshot st cid) = mset (map snd (chatDocs st cid))"
  by (simp add: messagesSnapshot_def chatDocs_def)

lemma snapshot_oldest:
  assumes d: "d \<in> set (messagesSnapshot st cid)"
    and m: "(k, m) \<in> set (chatDocs st cid)" and out: "m \<notin> set (messagesSnapshot st cid)"
  shows "timestamp d \<le> timestamp m"
proof -
  let ?key = "\<lambda>(k, m). (timestamp m, k)"
  let ?ys = "sort_key ?key (chatDocs st cid)"
  have split: "?ys = take 100 ?ys @ drop 100 ?ys" by simp
  have "sorted (map ?key ?ys)" by simp
  then have srt: "sorted (map ?key (take 100 ?ys) @ map ?key (drop 100 ?ys))"
    by (metis split map_append)
  from d obtain j where j: "(j, d) \<in> set (take 100 ?ys)"
    by (auto simp: messagesSnapshot_def chatDocs_def)
  have "(k, m) \<in> set ?ys" using m by simp
  then have "(k, m) \<in> set (take 100 ?ys) \<or> (k, m) \<in> set (drop 100 ?ys)"
    by (metis split set_append Un_iff)
  moreover have "(k, m) \<notin> set (take 100 ?ys)"
    using out by (force simp: messagesSnapshot_def chatDocs_def)
  ultimately have "(k, m) \<in> set (drop 100 ?ys)" by simp
  with j srt have "?key (j, d) \<le> ?key (k, m)"
    by (fastforce simp: sorted_append)
  then show ?thesis by (auto simp: less_eq_prod_def)
qed

text \<open>
  C9 as stated fails: in a chat of 101 messages the callback receives 100 of them, and
  the newest message of the chat is not among them.
\<close>

theorem newest_message_not_delivered:
  "length (chatDocs bigStore ''c1'') = 101
   \<and> numbered 100 \<in> set (chatDocs bigStore ''c1'')
   \<and> map length (subscribeToMessages ''c1'' [bigStore]) = [100]
   \<and> snd (numbered 100) \<notin> set (messagesSnapshot bigStore ''c1'')"
proof -
  have m: "min 100 (101::nat) = 100" by simp
  have a: "numbered 100 \<in> set (map numbered [0..<101])"
    by (rule numbered_in) simp
  have b: "snd (numbered 100) \<notin> set (map (snd \<circ> numbered) [0..<100])"
    by (rule numbered_out) simp
  have c: "length (map numbered [0..<101]) = 101"
    "length (map (snd \<circ> numbered) [0..<100]) = 100"
    unfolding length_map length_upt by simp_all
  show ?thesis
    unfolding bigStore_def chatDocs_numberedStore snapshot_numberedStore
      subscribeToMessages_def list.map m
    using a b c by (intro conjI) (assumption | simp only:)+
qed

text \<open>
  C9, amended. At registration and after every change the callback receives the result of
  the query on the current store: messages of the chat only, in ascending order of
  timestamp, cut at 100. It is every message of the chat when the chat has at most 100
  messages, and otherwise 100 messages none of which is newer than a message left out.
\<close>

theorem subscribeToMessages_delivers_first_100:
  assumes "i < length history"
  shows "length (subscribeToMessages cid history) = length history
    \<and> (let xs = subscribeToMessages cid history ! i; docs = chatDocs (history ! i) cid
       in xs = messagesSnapshot (history ! i) cid
          \<and> sorted (map timestamp xs)
          \<and> set xs \<subseteq> snd ` set docs
          \<and> length xs = min 100 (length docs)
          \<and> (length docs \<le> 100 \<longrightarrow> mset xs = mset (map snd docs))
          \<and> (\<forall>d \<in> set xs. \<forall>(k, m) \<in> set docs. m \<notin> set xs \<longrightarrow> timestamp d \<le> timestamp m))"
proof -
  have "subscribeToMessages cid history ! i = messagesSnapshot (history ! i) cid"
    using assms by (simp add: subscribeToMessages_def)
  moreover have "\<forall>d \<in> set (messagesSnapshot (history ! i) cid).
      \<forall>(k, m) \<in> set (chatDocs (history ! i) cid).
        m \<notin> set (messagesSnapshot (history ! i) cid) \<longrightarrow> timestamp d \<le> timestamp m"
    using snapshot_oldest by blast
  ultimately show ?thesis
    using snapshot_sorted [of "history ! i" cid] snapshot_subset [of "history ! i" cid]
      snapshot_length [of "history ! i" cid] snapshot_complete [of "history ! i" cid]
    by (simp add: subscribeToMessages_def Let_def)
qed

theorem subscribeToMessages_delivers_first_100_witness:
  "(1::nat) < length [store1, store2]
   \<and> subscribeToMessages ''direct_u1_u2'' [store1, store2] ! 1 = map snd (chatMessages store2)
   \<and> length (chatDocs store2 ''direct_u1_u2'') \<le> 100
   \<and> (0::nat) < length [bigStore]
   \<and> length (subscribeToMessages ''c1'' [bigStore] ! 0) = 100"
proof -
  have m: "min 100 (length (map numbered [0..<101])) = 100"
    unfolding length_map length_upt by simp
  have "length (subscribeToMessages ''c1'' [bigStore] ! 0) = 100"
    using subscribeToMessages_delivers_first_100 [where i = 0 and history = "[bigStore]"
        and cid = "''c1''"]
    by (auto simp add: Let_def bigStore_def chatDocs_numberedStore m)
  moreover have "subscribeToMessages ''direct_u1_u2'' [store1, store2] ! 1
        = map snd (chatMessages store2)
      \<and> length (chatDocs store2 ''direct_u1_u2'') \<le> 100"
    using subscribeToMessages_delivers_first_100 [where i = 1 and history = "[store1, store2]"
        and cid = "''direct_u1_u2''"]
    by (auto simp add: Let_def store2_eq chatDocs_def messagesSnapshot_def)
  ultimately show ?thesis by simp
qed

subsection \<open>Direct chat creation\<close>








lemma pairKeyed_emptyStore: "pairKeyed emptyStore a b"
  by (simp add: pairKeyed_def emptyStore_def)

lemma set_update_subset: "set (AList.update k v al) \<subseteq> insert (k, v) (set al)"
  by (induction al) auto

lemma pairKeyed_update:
  assumes "pairKeyed st a b" and "map_of (chatRooms st) k = Some r"
    and "roomType r' = roomType r" and "participants r' = participants r"
  shows "pairKeyed (st\<lparr>chatRooms := AList.update k r' (chatRooms st)\<rparr>) a b"
proof -
  let ?P = "\<lambda>j x. (roomType x = Direct \<and> set (participants x) = {a, b}) = (j = directChatId a b)"
  from assms(2) have "(k, r) \<in> set (chatRooms st)" by (rule map_of_SomeD)
  with assms(1) have "?P k r" by (auto simp add: pairKeyed_def)
  with assms(3,4) have new: "?P k r'" by simp
  have "?P j x" if "(j, x) \<in> set (AList.update k r' (chatRooms st))" for j x
  proof -
    from that set_update_subset [of k r' "chatRooms st"]
    have "(j, x) = (k, r') \<or> (j, x) \<in> set (chatRooms st)" by blast
    then show ?thesis
    proof
      assume "(j, x) = (k, r')"
      with new show ?thesis by simp
    next
      assume "(j, x) \<in> set (chatRooms st)"
      with assms(1) show ?thesis unfolding pairKeyed_def by blast
    qed
  qed
  then show ?thesis unfolding pairKeyed_def by auto
qed

lemma rooms_kept_by_message_writes:
  "apply_writes st (map (\<lambda>(k, m). UpdateMessage k f) ds) = Inr st' \<Longrightarrow>
   chatRooms st' = chatRooms st"
proof (induction ds arbitrary: st)
  case Nil
  then show ?case by simp
next
  case (Cons d ds)
  then show ?case by (cases d) (auto split: option.splits)
qed

lemma markChatAsRead_rooms: "chatRooms (snd (markChatAsRead e st cid u)) = chatRooms st"
  by (auto simp add: markChatAsRead_def getDocs_def commit_def split: sum.splits
      dest: rooms_kept_by_message_writes)

lemma pairKeyed_kept:
  assumes "pairKeyed st a b"
  shows "pairKeyed (snd (sendMessage e st cid sid sname body)) a b"
    and "pairKeyed (snd (sendMemeMessage e st cid sid sname md)) a b"
    and "pairKeyed (snd (deleteChatRoom e st cid)) a b"
    and "pairKeyed (snd (markMessageAsRead e st mid u)) a b"
    and "pairKeyed (snd (markChatAsRead e st cid u)) a b"
proof -
  have upd: "pairKeyed (st\<lparr>chatMessages := ms, chatRooms := AList.update k r' (chatRooms st)\<rparr>) a b"
    if "map_of (chatRooms st) k = Some r" "roomType r' = roomType r"
      "participants r' = participants r" for ms k r r'
    using pairKeyed_update [OF assms that] by (simp add: pairKeyed_def)
  show "pairKeyed (snd (sendMessage e st cid sid sname body)) a b"
    using assms upd
    by (auto simp add: sendMessage_def Let_def commit_send_cases split: option.splits)
  show "pairKeyed (snd (sendMemeMessage e st cid sid sname md)) a b"
    using assms upd
    by (auto simp add: sendMemeMessage_def Let_def commit_send_cases split: option.splits)
  show "pairKeyed (snd (deleteChatRoom e st cid)) a b"
    using assms pairKeyed_update [OF assms, of cid]
    by (auto simp add: deleteChatRoom_def commit_def split: option.splits)
  show "pairKeyed (snd (markMessageAsRead e st mid u)) a b"
    using assms
    by (auto simp add: markMessageAsRead_def updateDoc_def pairKeyed_def split: option.splits)
  show "pairKeyed (snd (markChatAsRead e st cid u)) a b"
    using assms by (simp add: pairKeyed_def markChatAsRead_rooms)
qed



subsection \<open>Read marks\<close>

lemma addReader_eq: "(\<lambda>m. m\<lparr>readBy := arrayUnion u (readBy m)\<rparr>) = addReader u"
  by (simp add: addReader_def fun_eq_iff)

lemma grown_refl: "grown m m"
  by (simp add: grown_def)

lemma grown_trans: "grown a b \<Longrightarrow> grown b c \<Longrightarrow> grown a c"
  by (cases a; cases b; cases c) (auto simp add: grown_def)

lemma grown_addReader: "grown m (addReader u m)"
  by (auto simp add: grown_def addReader_def arrayUnion_def)

lemma keeps_refl: "keeps st st"
  by (auto simp add: keeps_def grown_refl)

lemma keeps_trans: "keeps a b \<Longrightarrow> keeps b c \<Longrightarrow> keeps a c"
  unfolding keeps_def by (meson grown_trans)

lemma keeps_update:
  assumes "map_of (chatMessages st) k = Some m"
  shows "keeps st (st\<lparr>chatMessages := AList.update k (addReader u m) (chatMessages st)\<rparr>)"
  using assms by (auto simp add: keeps_def AList.update_conv' grown_refl grown_addReader)

lemma keeps_apply_writes:
  "apply_writes st (map (\<lambda>(k, m). UpdateMessage k (addReader u)) ds) = Inr st' \<Longrightarrow> keeps st st'"
proof (induction ds arbitrary: st)
  case Nil
  then show ?case by (simp add: keeps_refl)
next
  case (Cons d ds)
  obtain k m where d: "d = (k, m)" by (cases d)
  from Cons.prems d obtain m0 where m0: "map_of (chatMessages st) k = Some m0"
    and rest: "apply_writes (st\<lparr>chatMessages := AList.update k (addReader u m0) (chatMessages st)\<rparr>)
                 (map (\<lambda>(k, m). UpdateMessage k (addReader u)) ds) = Inr st'"
    by (auto split: option.splits)
  from keeps_update [OF m0] Cons.IH [OF rest] show ?case
    by (rule keeps_trans)
qed

lemma keeps_markMessageAsRead: "keeps st (snd (markMessageAsRead e st mid u))"
  using keeps_update [of st mid _ u]
  by (auto simp add: markMessageAsRead_def updateDoc_def keeps_refl addReader_eq
      split: option.splits)

lemma keeps_markChatAsRead: "keeps st (snd (markChatAsRead e st cid u))"
  using keeps_apply_writes [of st u]
  by (auto simp add: markChatAsRead_def getDocs_def commit_def keeps_refl addReader_eq
      split: sum.splits)

lemma keeps_runMark: "keeps st (runMark st c)"
  by (cases "(st, c)" rule: runMark.cases)
    (simp_all add: keeps_markMessageAsRead keeps_markChatAsRead)

lemma keeps_runMarks: "keeps st (runMarks st calls)"
  unfolding runMarks_def
proof (induction calls arbitrary: st)
  case Nil
  show ?case by (simp add: keeps_refl)
next
  case (Cons c calls)
  from keeps_runMark [of st c] Cons.IH [of "runMark st c"] show ?case
    by (simp add: keeps_trans)
qed

lemma addReader_id: "u \<in> set (readBy m) \<Longrightarrow> addReader u m = m"
  by (simp add: addReader_def arrayUnion_def)

lemma addReader_reads: "u \<in> set (readBy (addReader u m))"
  by (simp add: addReader_def arrayUnion_def)

lemma addReader_chatId: "chatId (addReader u m) = chatId m"
  by (simp add: addReader_def)

lemma markMessageAsRead_twice:
  "snd (markMessageAsRead e2 (snd (markMessageAsRead e1 st mid u)) mid u) =
     (if storeDown e1 (UpdateDoc ChatMessages mid) then snd (markMessageAsRead e2 st mid u)
      else snd (markMessageAsRead e1 st mid u))"
  by (simp add: markMessageAsRead_def updateDoc_def AList.update_conv' addReader_eq
      addReader_id addReader_reads split: option.splits)

lemma writes_noop:
  "\<forall>(k, m) \<in> set ds. map_of (chatMessages st) k = Some m \<and> addReader u m = m \<Longrightarrow>
   apply_writes st (map (\<lambda>(k, m). UpdateMessage k (addReader u)) ds) = Inr st"
  by (induction ds) (auto simp add: AList.update_triv)

lemma writes_all:
  assumes "distinct (map fst ds)"
    and "\<forall>(k, m) \<in> set ds. map_of (chatMessages st) k = Some m"
  shows "\<exists>st'. apply_writes st (map (\<lambda>(k, m). UpdateMessage k (addReader u)) ds) = Inr st'
           \<and> map fst (chatMessages st') = map fst (chatMessages st)
           \<and> (\<forall>j. map_of (chatMessages st') j =
                  (if j \<in> fst ` set ds then map_option (addReader u) (map_of (chatMessages st) j)
                   else map_of (chatMessages st) j))"
  using assms
proof (induction ds arbitrary: st)
  case Nil
  then show ?case by simp
next
  case (Cons d ds)
  obtain k m where d: "d = (k, m)" by (cases d)
  let ?st1 = "st\<lparr>chatMessages := AList.update k (addReader u m) (chatMessages st)\<rparr>"
  from Cons.prems d have km: "map_of (chatMessages st) k = Some m" and k: "k \<notin> fst ` set ds"
    and dist: "distinct (map fst ds)"
    by auto
  have "\<forall>(k', m') \<in> set ds. map_of (chatMessages ?st1) k' = Some m'"
    using Cons.prems(2) k by (force simp add: AList.update_conv')
  from Cons.IH [OF dist this] obtain st' where
    st': "apply_writes ?st1 (map (\<lambda>(k, m). UpdateMessage k (addReader u)) ds) = Inr st'"
    and keys: "map fst (chatMessages st') = map fst (chatMessages ?st1)"
    and vals: "\<forall>j. map_of (chatMessages st') j =
                  (if j \<in> fst ` set ds then map_option (addReader u) (map_of (chatMessages ?st1) j)
                   else map_of (chatMessages ?st1) j)"
    by blast
  have "k \<in> set (map fst (chatMessages st))"
    using km by (metis map_of_eq_None_iff option.distinct(1) set_map)
  then have keys1: "map fst (chatMessages ?st1) = map fst (chatMessages st)"
    by (simp add: AList.update_keys)
  have "apply_writes st (map (\<lambda>(k, m). UpdateMessage k (addReader u)) (d # ds)) = Inr st'"
    using st' km d by simp
  moreover have "\<forall>j. map_of (chatMessages st') j =
                  (if j \<in> fst ` set (d # ds) then map_option (addReader u) (map_of (chatMessages st) j)
                   else map_of (chatMessages st) j)"
    using vals k km d by (auto simp add: AList.update_conv')
  ultimately show ?case using keys keys1 by auto
qed

lemma markChatAsRead_settled:
  assumes dist: "distinct (map fst (chatMessages st))"
    and settled: "\<forall>(k, m) \<in> set (chatMessages st).
                    chatId m = cid \<and> readByNotIn [[u]] m \<longrightarrow> u \<in> set (readBy m)"
  shows "snd (markChatAsRead e st cid u) = st"
proof -
  let ?ds = "filter (\<lambda>(k, m). chatId m = cid \<and> readByNotIn [[u]] m) (chatMessages st)"
  have "\<forall>(k, m) \<in> set ?ds. map_of (chatMessages st) k = Some m \<and> addReader u m = m"
    using dist settled by (auto simp add: addReader_id)
  then have "apply_writes st (map (\<lambda>(k, m). UpdateMessage k (addReader u)) ?ds) = Inr st"
    by (rule writes_noop)
  then show ?thesis
    by (simp add: markChatAsRead_def getDocs_def commit_def addReader_eq)
qed

lemma markChatAsRead_twice:
  assumes dist: "distinct (map fst (chatMessages st))"
  shows "snd (markChatAsRead e2 (snd (markChatAsRead e1 st cid u)) cid u) =
     (if storeDown e1 (GetDocs ChatMessages cid) \<or> storeDown e1 BatchCommit
      then snd (markChatAsRead e2 st cid u)
      else snd (markChatAsRead e1 st cid u))"
proof (cases "storeDown e1 (GetDocs ChatMessages cid) \<or> storeDown e1 BatchCommit")
  case True
  then have "snd (markChatAsRead e1 st cid u) = st"
    by (auto simp add: markChatAsRead_def getDocs_def commit_def)
  with True show ?thesis by simp
next
  case False
  let ?P = "\<lambda>(k, m). chatId m = cid \<and> readByNotIn [[u]] m"
  let ?ds = "filter ?P (chatMessages st)"
  have "distinct (map fst ?ds)"
    using dist by (rule distinct_map_filter)
  moreover have "\<forall>(k, m) \<in> set ?ds. map_of (chatMessages st) k = Some m"
    using dist by auto
  ultimately obtain st1 where
    st1: "apply_writes st (map (\<lambda>(k, m). UpdateMessage k (addReader u)) ?ds) = Inr st1"
    and keys: "map fst (chatMessages st1) = map fst (chatMessages st)"
    and vals: "\<forall>j. map_of (chatMessages st1) j =
                  (if j \<in> fst ` set ?ds then map_option (addReader u) (map_of (chatMessages st) j)
                   else map_of (chatMessages st) j)"
    using writes_all [of ?ds st u] by blast
  have once: "snd (markChatAsRead e1 st cid u) = st1"
    using False st1 by (auto simp add: markChatAsRead_def getDocs_def commit_def addReader_eq)
  have dist1: "distinct (map fst (chatMessages st1))"
    using dist keys by simp
  have "u \<in> set (readBy m')"
    if mem: "(k, m') \<in> set (chatMessages st1)" and c: "chatId m' = cid"
      and r: "readByNotIn [[u]] m'" for k m'
  proof (cases "k \<in> fst ` set ?ds")
    case True
    from mem dist1 have "map_of (chatMessages st1) k = Some m'" by simp
    with True vals obtain m0 where "m' = addReader u m0" by auto
    then show ?thesis by (simp add: addReader_reads)
  next
    case False
    from mem dist1 have "map_of (chatMessages st1) k = Some m'" by simp
    with False vals have "map_of (chatMessages st) k = Some m'" by simp
    then have "(k, m') \<in> set (chatMessages st)" by (rule map_of_SomeD)
    with r c have "(k, m') \<in> set ?ds" by simp
    with False show ?thesis by force
  qed
  then have "\<forall>(k, m') \<in> set (chatMessages st1).
          chatId m' = cid \<and> readByNotIn [[u]] m' \<longrightarrow> u \<in> set (readBy m')"
    by blast
  with dist1 have "snd (markChatAsRead e2 st1 cid u) = st1"
    by (rule markChatAsRead_settled)
  with once False show ?thesis by simp
qed

lemma sendMessage_stored:
  "sendMessage e st cid sid sname body = (Inr m, st') \<Longrightarrow>
   map_of (chatMessages st') (msgId m) = Some m \<and> readBy m = [sid] \<and> senderId m = sid"
  by (auto simp add: sendMessage_def Let_def commit_send_cases AList.update_conv'
      split: if_splits option.splits)

text \<open>
  C4. Along every sequence of \<^verbatim>\<open>markMessageAsRead\<close> and \<^verbatim>\<open>markChatAsRead\<close> calls, with any
  store failures, a stored message stays stored, its \<^verbatim>\<open>readBy\<close> keeps every member it
  had and nothing else of the message changes; so the sender, who is in \<^verbatim>\<open>readBy\<close> from
  \<^verbatim>\<open>sendMessage\<close> on, stays in it. Repeating a mark call that went through leaves the
  store as the first call left it, and a call that failed left the store as it was; in
  particular the same call made twice leaves what it leaves when made once.
\<close>

theorem readBy_only_grows:
  assumes "map_of (chatMessages st) k = Some m"
  shows "(case map_of (chatMessages (runMarks st calls)) k of
            None \<Rightarrow> False
          | Some m' \<Rightarrow> set (readBy m) \<subseteq> set (readBy m') \<and> m'\<lparr>readBy := readBy m\<rparr> = m
                        \<and> (senderId m \<in> set (readBy m) \<longrightarrow> senderId m' \<in> set (readBy m')))
    \<and> (sendMessage e0 st0 cid sid sname body = (Inr m, st) \<longrightarrow>
         (case map_of (chatMessages (runMarks st calls)) (msgId m) of
            None \<Rightarrow> False
          | Some m' \<Rightarrow> senderId m' = sid \<and> sid \<in> set (readBy m')))
    \<and> snd (markMessageAsRead e (snd (markMessageAsRead e st mid u)) mid u)
        = snd (markMessageAsRead e st mid u)
    \<and> snd (markMessageAsRead e2 (snd (markMessageAsRead e1 st mid u)) mid u)
        = (if storeDown e1 (UpdateDoc ChatMessages mid) then snd (markMessageAsRead e2 st mid u)
           else snd (markMessageAsRead e1 st mid u))
    \<and> (distinct (map fst (chatMessages st)) \<longrightarrow>
         snd (markChatAsRead e (snd (markChatAsRead e st c u)) c u) = snd (markChatAsRead e st c u)
         \<and> snd (markChatAsRead e2 (snd (markChatAsRead e1 st c u)) c u)
            = (if storeDown e1 (GetDocs ChatMessages c) \<or> storeDown e1 BatchCommit
               then snd (markChatAsRead e2 st c u)
               else snd (markChatAsRead e1 st c u)))"
proof -
  have grow: "\<exists>m'. map_of (chatMessages (runMarks st calls)) j = Some m' \<and> grown x m'"
    if "map_of (chatMessages st) j = Some x" for j x
    using keeps_runMarks [of st calls] that by (simp add: keeps_def)
  from grow [OF assms] obtain m' where
    m': "map_of (chatMessages (runMarks st calls)) k = Some m'" and g: "grown m m'"
    by blast
  from g have same: "m'\<lparr>readBy := readBy m\<rparr> = m" and sub: "set (readBy m) \<subseteq> set (readBy m')"
    by (simp_all add: grown_def)
  from same have "senderId m' = senderId m"
    by (cases m; cases m') simp
  with m' same sub have first: "case map_of (chatMessages (runMarks st calls)) k of
            None \<Rightarrow> False
          | Some m' \<Rightarrow> set (readBy m) \<subseteq> set (readBy m') \<and> m'\<lparr>readBy := readBy m\<rparr> = m
                        \<and> (senderId m \<in> set (readBy m) \<longrightarrow> senderId m' \<in> set (readBy m'))"
    by auto
  have second: "case map_of (chatMessages (runMarks st calls)) (msgId m) of
            None \<Rightarrow> False
          | Some m' \<Rightarrow> senderId m' = sid \<and> sid \<in> set (readBy m')"
    if sent: "sendMessage e0 st0 cid sid sname body = (Inr m, st)"
  proof -
    from sendMessage_stored [OF sent] have st: "map_of (chatMessages st) (msgId m) = Some m"
      and r: "readBy m = [sid]" and s: "senderId m = sid"
      by simp_all
    from grow [OF st] obtain m2 where
      m2: "map_of (chatMessages (runMarks st calls)) (msgId m) = Some m2" and g2: "grown m m2"
      by blast
    from g2 have "m2\<lparr>readBy := readBy m\<rparr> = m" and "set (readBy m) \<subseteq> set (readBy m2)"
      by (simp_all add: grown_def)
    then have "senderId m2 = senderId m" and "sid \<in> set (readBy m2)"
      using r by (cases m; cases m2; simp)+
    with m2 s show ?thesis by simp
  qed
  show ?thesis
    using first second markMessageAsRead_twice [of e e st mid u]
      markMessageAsRead_twice [of e2 e1 st mid u]
      markChatAsRead_twice [of st e e c u] markChatAsRead_twice [of st e2 e1 c u]
    by (simp del: split_paired_All)
qed

theorem readBy_only_grows_witness:
  "map_of (chatMessages store2) ''m1'' = Some message1
   \<and> distinct (map fst (chatMessages store2))
   \<and> sendMessage env0 store1 ''direct_u1_u2'' ''u1'' ''Una'' ''hi'' = (Inr message1, store2)
   \<and> map (\<lambda>(k, m). (k, readBy m))
        (chatMessages (runMarks store2
           [(env0, MarkChat ''direct_u1_u2'' ''u2''), (envDown, MarkMessage ''m1'' ''u3''),
            (env0, MarkMessage ''m1'' ''u2''), (env0, MarkMessage ''m1'' ''u1'')]))
       = [(''m1'', [''u1'', ''u2''])]"
  using readBy_only_grows [where st = store2 and k = "''m1''" and m = message1
      and calls = "[(env0, MarkChat ''direct_u1_u2'' ''u2''), (envDown, MarkMessage ''m1'' ''u3''),
                    (env0, MarkMessage ''m1'' ''u2''), (env0, MarkMessage ''m1'' ''u1'')]"
      and ?e0.0 = env0 and ?st0.0 = store1 and cid = "''direct_u1_u2''" and sid = "''u1''"
      and sname = "''Una''" and body = "''hi''"]
  by (simp add: store2_eq message1_def runMarks_def markChatAsRead_def markMessageAsRead_def
      getDocs_def updateDoc_def commit_def env0_def envDown_def readByNotIn_def arrayUnion_def
      sendMessage_def commit_send_cases store1_def Let_def)

subsection \<open>The store invariant\<close>

text \<open>The empty store has one entry per document id, and the chat operations keep it so;
  this is the distinctness that the statements about direct chats and read marks
  assume of the store.\<close>

lemma wellFormed_emptyStore: "wellFormed emptyStore"
  by (simp add: wellFormed_def emptyStore_def)

lemma wellFormed_apply_write:
  "apply_write st w = Inr st' \<Longrightarrow> wellFormed st \<Longrightarrow> wellFormed st'"
  by (cases w)
    (auto simp add: wellFormed_def AList.distinct_update AList.distinct_delete
      split: option.splits)

lemma wellFormed_apply_writes:
  "apply_writes st ws = Inr st' \<Longrightarrow> wellFormed st \<Longrightarrow> wellFormed st'"
proof (induction ws arbitrary: st)
  case Nil
  then show ?case by simp
next
  case (Cons w ws)
  then show ?case
    by (auto split: sum.splits dest: wellFormed_apply_write)
qed

lemma wellFormed_commit: "wellFormed st \<Longrightarrow> wellFormed (snd (commit e st ws))"
  by (auto simp add: commit_def split: sum.splits dest: wellFormed_apply_writes)

lemma snd_case_result:
  "snd (case p of (Inl err, st') \<Rightarrow> (F err, st') | (Inr x, st') \<Rightarrow> (G x, st')) = snd p"
  by (cases p; cases "fst p") auto

lemma wellFormed_chat_operations:
  assumes "wellFormed st"
  shows "wellFormed (snd (createDirectChat e st a b))"
    and "wellFormed (snd (createGroupChat e st a ps nm))"
    and "wellFormed (snd (sendMessage e st cid a sname body))"
    and "wellFormed (snd (sendMemeMessage e st cid a sname md))"
    and "wellFormed (snd (markMessageAsRead e st mid a))"
    and "wellFormed (snd (markChatAsRead e st cid a))"
    and "wellFormed (snd (addParticipant e st cid a))"
    and "wellFormed (snd (removeParticipant e st cid a))"
    and "wellFormed (snd (deleteChatRoom e st cid))"
proof -
  show "wellFormed (snd (createDirectChat e st a b))"
    using assms
    by (auto simp add: createDirectChat_def setDoc_def Let_def wellFormed_def
        AList.distinct_update split: option.splits)
  show "wellFormed (snd (createGroupChat e st a ps nm))"
    using assms
    by (auto simp add: createGroupChat_def setDoc_def Let_def wellFormed_def
        AList.distinct_update)
  show "wellFormed (snd (sendMessage e st cid a sname body))"
    using assms by (simp add: sendMessage_def Let_def snd_case_result wellFormed_commit)
  show "wellFormed (snd (sendMemeMessage e st cid a sname md))"
    using assms by (simp add: sendMemeMessage_def Let_def snd_case_result wellFormed_commit)
  show "wellFormed (snd (markMessageAsRead e st mid a))"
    using assms
    by (auto simp add: markMessageAsRead_def updateDoc_def wellFormed_def
        AList.distinct_update split: option.splits)
  show "wellFormed (snd (markChatAsRead e st cid a))"
    using assms
    by (simp add: markChatAsRead_def getDocs_def split_def wellFormed_commit)
  show "wellFormed (snd (addParticipant e st cid a))"
    using assms
    by (auto simp add: addParticipant_def updateDoc_def wellFormed_def
        AList.distinct_update split: option.splits)
  show "wellFormed (snd (removeParticipant e st cid a))"
    using assms
    by (auto simp add: removeParticipant_def updateDoc_def wellFormed_def
        AList.distinct_update split: option.splits)
  show "wellFormed (snd (deleteChatRoom e st cid))"
    using wellFormed_commit [OF assms] by (simp add: deleteChatRoom_def)
qed

end
